theory Spec2Isabelle
  imports Main "HOL-Library.Multiset" "HOL-Library.Sublist"
begin

section \<open>Job documents and responses\<close>

text \<open>
  A stored job document has the four paths of \<open>JobSchema\<close>, the \<open>_id\<close> the store
  gives it and the two timestamps of the \<open>timestamps\<close> option. An \<open>ObjectId\<close> is kept
  as its hexadecimal text.
\<close>

datatype objectId = ObjectId string

record job =
  job_id :: objectId
  role :: string
  company :: string
  status :: string
  createdBy :: objectId
  createdAt :: nat
  updatedAt :: nat

text \<open>
  What \<open>res.status(...).json(...)\<close> and \<open>res.status(...).send()\<close> write: the status and
  one of the bodies \<open>{ msg }\<close>, \<open>{ jobs, numOfJobs }\<close>, \<open>{ job }\<close> (with one document,
  or with the array of documents that \<open>Job.create\<close> returns for an array),
  \<open>{ updatedJob }\<close> and the empty body.
\<close>

datatype body =
  MsgBody string
| JobsBody "job list" nat
| JobBody job
| JobArrayBody "job list"
| UpdatedJobBody job
| EmptyBody

record response =
  res_status :: int
  res_body :: body

section \<open>Errors as the handlers see them\<close>

text \<open>
  A value thrown during request handling is a JavaScript object. The error handler reads
  seven of its properties; the record below holds those seven, each one absent
  (\<open>None\<close>, JavaScript's \<open>undefined\<close>) or present:
  \<^item> \<open>statusCode\<close>: a number;
  \<^item> \<open>message\<close>: a string;
  \<^item> \<open>code\<close>: a number (the database driver) or a string (Node's system errors);
  \<^item> \<open>name\<close>: a string;
  \<^item> \<open>keyValue\<close>: an object, kept as the list \<open>Object.keys\<close> returns for it;
  \<^item> \<open>errors\<close>: an object whose values are field-level errors, kept as the list
    \<open>Object.values\<close> returns for it;
  \<^item> \<open>value\<close>: the value a cast rejected; the requests modelled here carry strings.
\<close>

datatype js_code = CodeNum int | CodeStr string

record sub_error =
  path :: string
  message :: string

record js_error =
  err_statusCode :: "int option"
  err_message :: "string option"
  err_code :: "js_code option"
  err_name :: "string option"
  err_keyValue :: "string list option"
  err_errors :: "sub_error list option"
  err_value :: "string option"

text \<open>\<open>new Error(message)\<close>: the name is inherited from \<open>Error.prototype\<close>.\<close>

definition Error :: "string \<Rightarrow> js_error" where
  "Error m =
     \<lparr>err_statusCode = None, err_message = Some m, err_code = None, err_name = Some ''Error'',
      err_keyValue = None, err_errors = None, err_value = None\<rparr>"

subsection \<open>The status codes of http-status-codes\<close>

definition OK :: int where "OK = 200"
definition BAD_REQUEST :: int where "BAD_REQUEST = 400"
definition UNAUTHORIZED :: int where "UNAUTHORIZED = 401"
definition NOT_FOUND :: int where "NOT_FOUND = 404"
definition INTERNAL_SERVER_ERROR :: int where "INTERNAL_SERVER_ERROR = 500"

subsection \<open>Domain errors\<close>

text \<open>
  Modelled from the spec: the module \<open>../errors\<close> (\<open>CustomAPIError\<close>, \<open>NotFoundError\<close>,
  \<open>BadRequestError\<close> and the unauthenticated error) is not among the sources. The spec
  names three domain errors, each raised with a message, and gives each a status of its
  own: 404, 400 and 401.
\<close>

datatype domain_error =
  NotFound string | BadRequest string | Unauthenticated string

fun domain_status :: "domain_error \<Rightarrow> int" where
  "domain_status (NotFound m) = NOT_FOUND"
| "domain_status (BadRequest m) = BAD_REQUEST"
| "domain_status (Unauthenticated m) = UNAUTHORIZED"

fun domain_message :: "domain_error \<Rightarrow> string" where
  "domain_message (NotFound m) = m"
| "domain_message (BadRequest m) = m"
| "domain_message (Unauthenticated m) = m"

text \<open>
  Modelled from the spec: the object an explicit raise throws, whose class is declared
  in the missing module \<open>../errors\<close>. The spec says that the explicit-raise path sets a
  marker attribute, which the handler reads as \<open>statusCode\<close>. A class that extends
  \<open>Error\<close> keeps the name \<open>Error\<close> and has no \<open>code\<close>.
\<close>

definition CustomAPIError :: "domain_error \<Rightarrow> js_error" where
  "CustomAPIError d = (Error (domain_message d))\<lparr>err_statusCode := Some (domain_status d)\<rparr>"

text \<open>
  Modelled from the spec: \<open>new NotFoundError(message)\<close> of the missing module
  \<open>../errors\<close>, the domain error the controllers raise.
\<close>

definition NotFoundError :: "string \<Rightarrow> js_error" where
  "NotFoundError m = CustomAPIError (NotFound m)"

section \<open>The error handler (middleware/error-handler.js)\<close>

text \<open>
  The handler is a function of the error: it builds \<open>customError\<close>, lets three \<open>if\<close>
  statements overwrite it in turn, and sends it. The line it writes to the console is
  not part of the response and is left out.

  \<open>Array.prototype.join\<close> on strings; a template literal turns an array into
  \<open>join(',')\<close> and \<open>undefined\<close> into the word \<open>undefined\<close>.
\<close>

fun join :: "string \<Rightarrow> string list \<Rightarrow> string" where
  "join sep [] = []"
| "join sep [x] = x"
| "join sep (x # y # ys) = x @ sep @ join sep (y # ys)"

definition template_value :: "string option \<Rightarrow> string" where
  "template_value v = (case v of None \<Rightarrow> ''undefined'' | Some s \<Rightarrow> s)"

record customError =
  statusCode :: int
  msg :: string

text \<open>
  \<open>Object.keys\<close> and \<open>Object.values\<close> throw a \<open>TypeError\<close> on \<open>undefined\<close>; the
  handler does not catch it, so the request ends outside the handler.
\<close>

datatype handler_failure = TypeError

text \<open>\<open>a || b\<close>: \<open>undefined\<close>, \<open>0\<close> and the empty string are falsy.\<close>

definition or_number :: "int option \<Rightarrow> int \<Rightarrow> int" where
  "or_number a b = (case a of None \<Rightarrow> b | Some n \<Rightarrow> if n = 0 then b else n)"

definition or_string :: "string option \<Rightarrow> string \<Rightarrow> string" where
  "or_string a b = (case a of None \<Rightarrow> b | Some s \<Rightarrow> if s = [] then b else s)"

definition generic_message :: string where
  "generic_message = ''Something went wrong, please try again later''"

definition initialCustomError :: "js_error \<Rightarrow> customError" where
  "initialCustomError err =
     \<lparr>statusCode = or_number (err_statusCode err) INTERNAL_SERVER_ERROR,
      msg = or_string (err_message err) generic_message\<rparr>"

text \<open>The three tests of the handler, as it writes them.\<close>

definition isDuplicate :: "js_error \<Rightarrow> bool" where
  "isDuplicate err = (err_code err = Some (CodeNum 11000))"

definition isValidation :: "js_error \<Rightarrow> bool" where
  "isValidation err = (err_name err = Some ''ValidationError'')"

definition isCast :: "js_error \<Rightarrow> bool" where
  "isCast err = (err_name err = Some ''CastError'')"

definition duplicate_msg :: "string list \<Rightarrow> string" where
  "duplicate_msg ks =
     ''Duplicate value entered for the '' @ join '','' ks @ '' field. Please choose another value''"

definition validation_msg :: "sub_error list \<Rightarrow> string" where
  "validation_msg es =
     ''Validation failed for user creation due to the following reasons: '' @
       join '', '' (map message es)"

definition cast_msg :: "string option \<Rightarrow> string" where
  "cast_msg v = ''No job found with an id of '' @ template_value v"

definition handleDuplicate :: "js_error \<Rightarrow> customError \<Rightarrow> handler_failure + customError" where
  "handleDuplicate err ce =
     (if isDuplicate err then
        (case err_keyValue err of
           None \<Rightarrow> Inl TypeError
         | Some ks \<Rightarrow> Inr (ce\<lparr>statusCode := BAD_REQUEST, msg := duplicate_msg ks\<rparr>))
      else Inr ce)"

definition handleValidation :: "js_error \<Rightarrow> customError \<Rightarrow> handler_failure + customError" where
  "handleValidation err ce =
     (if isValidation err then
        (case err_errors err of
           None \<Rightarrow> Inl TypeError
         | Some es \<Rightarrow> Inr (ce\<lparr>statusCode := BAD_REQUEST, msg := validation_msg es\<rparr>))
      else Inr ce)"

definition handleCast :: "js_error \<Rightarrow> customError \<Rightarrow> customError" where
  "handleCast err ce =
     (if isCast err then ce\<lparr>statusCode := NOT_FOUND, msg := cast_msg (err_value err)\<rparr>
      else ce)"

definition send :: "customError \<Rightarrow> response" where
  "send ce = \<lparr>res_status = statusCode ce, res_body = MsgBody (msg ce)\<rparr>"

definition errorHandlerMiddleware :: "js_error \<Rightarrow> handler_failure + response" where
  "errorHandlerMiddleware err =
     (case handleDuplicate err (initialCustomError err) of
        Inl t \<Rightarrow> Inl t
      | Inr ce1 \<Rightarrow>
          (case handleValidation err ce1 of
             Inl t \<Rightarrow> Inl t
           | Inr ce2 \<Rightarrow> Inr (send (handleCast err ce2))))"

section \<open>The schema (models/Job.js) and the library's validators\<close>

text \<open>
  The options \<open>JobSchema\<close> gives a string path: \<open>required: [true, message]\<close>,
  \<open>maxLength\<close>, \<open>enum\<close> and \<open>default\<close>.
\<close>

record string_path =
  sp_required :: "string option"
  sp_maxLength :: "nat option"
  sp_enum :: "string list option"
  sp_default :: "string option"

definition JobSchema_role :: string_path where
  "JobSchema_role =
     \<lparr>sp_required = Some ''Please provide a role'', sp_maxLength = Some 100,
      sp_enum = None, sp_default = None\<rparr>"

definition JobSchema_company :: string_path where
  "JobSchema_company =
     \<lparr>sp_required = Some ''Please enter a company name'', sp_maxLength = Some 50,
      sp_enum = None, sp_default = None\<rparr>"

definition JobSchema_status :: string_path where
  "JobSchema_status =
     \<lparr>sp_required = None, sp_maxLength = None,
      sp_enum = Some [''interview'', ''pending'', ''declined''], sp_default = Some ''pending''\<rparr>"

definition JobSchema_createdBy_required :: string where
  "JobSchema_createdBy_required = ''Please provide a user''"

text \<open>
  Mongoose is a library, not part of the repository; what follows is its documented
  behaviour on the calls the controllers make, for request bodies that are JSON objects
  with string values and, on a create, arrays of such objects.
  \<^item> A path reports at most one failure, the first of its validators that fails:
    \<open>required\<close> first (it rejects an absent value and the empty string), then the
    others. The messages of \<open>maxLength\<close> and \<open>enum\<close> are the library's defaults.
  \<^item> \<open>length\<close> counts the characters of a HOL string where JavaScript counts UTF-16
    code units; on ASCII text the two agree.
  \<^item> Entries of a body for other paths than the four of the schema are not modelled.
\<close>

definition digit :: "nat \<Rightarrow> char" where
  "digit d = ''0123456789'' ! (d mod 10)"

fun decimal :: "nat \<Rightarrow> string" where
  "decimal n = (if n div 10 = 0 then [digit n] else decimal (n div 10) @ [digit n])"

definition maxlength_message :: "string \<Rightarrow> string \<Rightarrow> nat \<Rightarrow> string" where
  "maxlength_message p v n =
     ''Path `'' @ p @ ''` (`'' @ v @ ''`) is longer than the maximum allowed length ('' @
       decimal n @ '').''"

definition enum_message :: "string \<Rightarrow> string \<Rightarrow> string" where
  "enum_message p v = ''`'' @ v @ ''` is not a valid enum value for path `'' @ p @ ''`.''"

definition requiredError :: "string \<Rightarrow> string_path \<Rightarrow> string option \<Rightarrow> sub_error option" where
  "requiredError p sp v =
     (case sp_required sp of
        None \<Rightarrow> None
      | Some m \<Rightarrow> if v = None \<or> v = Some [] then Some \<lparr>path = p, message = m\<rparr> else None)"

definition maxLengthError :: "string \<Rightarrow> string_path \<Rightarrow> string option \<Rightarrow> sub_error option" where
  "maxLengthError p sp v =
     (case (sp_maxLength sp, v) of
        (Some n, Some s) \<Rightarrow>
          if length s \<le> n then None else Some \<lparr>path = p, message = maxlength_message p s n\<rparr>
      | _ \<Rightarrow> None)"

definition enumError :: "string \<Rightarrow> string_path \<Rightarrow> string option \<Rightarrow> sub_error option" where
  "enumError p sp v =
     (case (sp_enum sp, v) of
        (Some vals, Some s) \<Rightarrow>
          if s \<in> set vals then None else Some \<lparr>path = p, message = enum_message p s\<rparr>
      | _ \<Rightarrow> None)"

definition doValidate :: "string \<Rightarrow> string_path \<Rightarrow> string option \<Rightarrow> sub_error list" where
  "doValidate p sp v =
     (case requiredError p sp v of
        Some e \<Rightarrow> [e]
      | None \<Rightarrow>
          (case maxLengthError p sp v of
             Some e \<Rightarrow> [e]
           | None \<Rightarrow> (case enumError p sp v of Some e \<Rightarrow> [e] | None \<Rightarrow> [])))"

definition applyDefault :: "string_path \<Rightarrow> string option \<Rightarrow> string option" where
  "applyDefault sp v = (case v of None \<Rightarrow> sp_default sp | Some s \<Rightarrow> Some s)"

subsection \<open>The errors the library and the driver raise\<close>

text \<open>
  The three shapes the notes of the error handler list. The \<open>message\<close> of a duplicate-key
  error is the server's text, shortened here; the handler never shows it.
\<close>

definition ValidationError :: "string \<Rightarrow> sub_error list \<Rightarrow> js_error" where
  "ValidationError label es =
     \<lparr>err_statusCode = None,
      err_message =
        Some (label @ '': '' @ join '', '' (map (\<lambda>e. path e @ '': '' @ message e) es)),
      err_code = None, err_name = Some ''ValidationError'',
      err_keyValue = None, err_errors = Some es, err_value = None\<rparr>"

definition CastError :: "string \<Rightarrow> string \<Rightarrow> js_error" where
  "CastError v p =
     \<lparr>err_statusCode = None,
      err_message =
        Some (''Cast to ObjectId failed for value '' @ [CHR 0x22] @ v @ [CHR 0x22] @
              '' (type string) at path '' @ [CHR 0x22] @ p @ [CHR 0x22] @
              '' for model '' @ [CHR 0x22] @ ''Job'' @ [CHR 0x22]),
      err_code = None, err_name = Some ''CastError'',
      err_keyValue = None, err_errors = None, err_value = Some v\<rparr>"

definition DuplicateKeyError :: "string list \<Rightarrow> js_error" where
  "DuplicateKeyError ks =
     \<lparr>err_statusCode = None,
      err_message = Some (''E11000 duplicate key error index: '' @ join '','' ks),
      err_code = Some (CodeNum 11000), err_name = Some ''MongoServerError'',
      err_keyValue = Some ks, err_errors = None, err_value = None\<rparr>"

section \<open>The store and the model's operations\<close>

text \<open>
  What a request handler cannot decide by itself: how the library casts a string to an
  \<open>ObjectId\<close> (which strings it accepts depends on the version of the driver), the
  \<open>_id\<close>s the driver generates for the documents a request creates (numbered from 0),
  the clock, and the order in which a validation reports its failures.
\<close>

record env =
  castObjectId :: "string \<Rightarrow> objectId option"
  newObjectId :: "nat \<Rightarrow> objectId"
  now :: nat
  pathRank :: "string \<Rightarrow> nat"

text \<open>
  A validation reports at most one failure for each path. The order in which the library
  visits the paths comes from its bookkeeping (the sample in the notes of the error
  handler lists \<open>password\<close> before \<open>email\<close>, against the order of that schema), so
  the order is taken from the environment as a rank of the paths: the failures are
  reported by ascending rank.
\<close>

definition reportOrder :: "env \<Rightarrow> sub_error list \<Rightarrow> sub_error list" where
  "reportOrder e es = sort_key (\<lambda>s. pathRank e (path s)) es"

text \<open>
  The collection \<open>jobs\<close> is the list of its documents in insertion order. The library
  casts the keys of the filter \<open>{ _id: jobId, createdBy: userId }\<close> from the last to the
  first, \<open>createdBy\<close> before \<open>_id\<close>; the first value it meets that is no \<open>ObjectId\<close>
  raises a \<open>CastError\<close>.
\<close>

definition castFilter :: "env \<Rightarrow> string \<Rightarrow> string \<Rightarrow> js_error + (objectId \<times> objectId)" where
  "castFilter e jobId userId =
     (case castObjectId e userId of
        None \<Rightarrow> Inl (CastError userId ''createdBy'')
      | Some u \<Rightarrow>
          (case castObjectId e jobId of
             None \<Rightarrow> Inl (CastError jobId ''_id'')
           | Some i \<Rightarrow> Inr (i, u)))"

definition matches :: "objectId \<times> objectId \<Rightarrow> job \<Rightarrow> bool" where
  "matches c j = (job_id j = fst c \<and> createdBy j = snd c)"

text \<open>\<open>Job.find({ createdBy: userId }).sort('createdAt')\<close>\<close>

definition Job_find_sorted :: "env \<Rightarrow> job list \<Rightarrow> string \<Rightarrow> js_error + job list" where
  "Job_find_sorted e db userId =
     (case castObjectId e userId of
        None \<Rightarrow> Inl (CastError userId ''createdBy'')
      | Some u \<Rightarrow> Inr (sort_key createdAt (filter (\<lambda>j. createdBy j = u) db)))"

text \<open>\<open>Job.findOne({ _id: jobId, createdBy: userId })\<close>\<close>

definition Job_findOne :: "env \<Rightarrow> job list \<Rightarrow> string \<Rightarrow> string \<Rightarrow> js_error + job option" where
  "Job_findOne e db jobId userId =
     (case castFilter e jobId userId of
        Inl err \<Rightarrow> Inl err
      | Inr c \<Rightarrow> Inr (find (matches c) db))"

text \<open>
  \<open>Job.create(doc)\<close>: the document is built from the paths of the schema (the default of
  \<open>status\<close> applied, \<open>createdBy\<close> cast), validated as a whole, stamped and inserted.
  A value of \<open>createdBy\<close> that is no \<open>ObjectId\<close> is reported among the validation
  failures, with the library's cast message.
\<close>

definition validateOwner :: "env \<Rightarrow> string option \<Rightarrow> sub_error list" where
  "validateOwner e v =
     (case v of
        None \<Rightarrow> [\<lparr>path = ''createdBy'', message = JobSchema_createdBy_required\<rparr>]
      | Some s \<Rightarrow>
          (case castObjectId e s of
             None \<Rightarrow>
               [\<lparr>path = ''createdBy'',
                 message = ''Cast to ObjectId failed for value '' @ [CHR 0x22] @ s @ [CHR 0x22] @
                   '' (type string) at path '' @ [CHR 0x22] @ ''createdBy'' @ [CHR 0x22]\<rparr>]
           | Some u \<Rightarrow> []))"

definition validateDocument :: "env \<Rightarrow> (string \<rightharpoonup> string) \<Rightarrow> sub_error list" where
  "validateDocument e doc =
     reportOrder e
       (doValidate ''role'' JobSchema_role (doc ''role'') @
        doValidate ''company'' JobSchema_company (doc ''company'') @
        doValidate ''status'' JobSchema_status (applyDefault JobSchema_status (doc ''status'')) @
        validateOwner e (doc ''createdBy''))"

definition newDocument :: "env \<Rightarrow> nat \<Rightarrow> (string \<rightharpoonup> string) \<Rightarrow> job option" where
  "newDocument e k doc =
     (case (doc ''role'', doc ''company'', applyDefault JobSchema_status (doc ''status''),
            Option.bind (doc ''createdBy'') (castObjectId e)) of
        (Some r, Some c, Some s, Some u) \<Rightarrow>
          Some \<lparr>job_id = newObjectId e k, role = r, company = c, status = s, createdBy = u,
                createdAt = now e, updatedAt = now e\<rparr>
      | _ \<Rightarrow> None)"

text \<open>\<open>new Job(doc).save()\<close> for the \<open>k\<close>-th document of a request.\<close>

definition saveDocument ::
  "env \<Rightarrow> nat \<Rightarrow> job list \<Rightarrow> (string \<rightharpoonup> string) \<Rightarrow> (js_error + job) \<times> job list" where
  "saveDocument e k db doc =
     (case validateDocument e doc of
        x # xs \<Rightarrow> (Inl (ValidationError ''Job validation failed'' (x # xs)), db)
      | [] \<Rightarrow>
          (case newDocument e k doc of
             None \<Rightarrow> (Inl (ValidationError ''Job validation failed'' []), db)
           | Some j \<Rightarrow>
               if newObjectId e k \<in> set (map job_id db)
               then (Inl (DuplicateKeyError [''_id'']), db)
               else (Inr j, db @ [j])))"

definition Job_create :: "env \<Rightarrow> job list \<Rightarrow> (string \<rightharpoonup> string) \<Rightarrow> (js_error + job) \<times> job list" where
  "Job_create e db doc = saveDocument e 0 db doc"

text \<open>
  \<open>Job.create(docs)\<close> for an array: the library makes one document of every element and
  saves each on its own, so a failure of one element does not keep the others from being
  stored. It returns the new documents in the order of the array, or rejects with the
  first failure it has met. Every document is validated before anything is sent to the
  database, so a validation failure comes before a duplicate key. Named properties of
  the array object are not elements: the library does not read them.
\<close>

fun saveAll ::
  "env \<Rightarrow> nat \<Rightarrow> job list \<Rightarrow> (string \<rightharpoonup> string) list \<Rightarrow> (js_error + job) list \<times> job list" where
  "saveAll e k db [] = ([], db)"
| "saveAll e k db (doc # docs) =
     (case saveDocument e k db doc of
        (r, db') \<Rightarrow> (case saveAll e (Suc k) db' docs of (rs, db'') \<Rightarrow> (r # rs, db'')))"

fun failures :: "(js_error + job) list \<Rightarrow> js_error list" where
  "failures [] = []"
| "failures (Inl err # rs) = err # failures rs"
| "failures (Inr j # rs) = failures rs"

fun saved :: "(js_error + job) list \<Rightarrow> job list" where
  "saved [] = []"
| "saved (Inl err # rs) = saved rs"
| "saved (Inr j # rs) = j # saved rs"

definition firstFailure :: "(js_error + job) list \<Rightarrow> js_error option" where
  "firstFailure rs =
     (case filter isValidation (failures rs) @ filter (\<lambda>err. \<not> isValidation err) (failures rs) of
        [] \<Rightarrow> None
      | err # errs \<Rightarrow> Some err)"

definition Job_create_array ::
  "env \<Rightarrow> job list \<Rightarrow> (string \<rightharpoonup> string) list \<Rightarrow> (js_error + job list) \<times> job list" where
  "Job_create_array e db docs =
     (case saveAll e 0 db docs of
        (rs, db') \<Rightarrow>
          (case firstFailure rs of
             Some err \<Rightarrow> (Inl err, db')
           | None \<Rightarrow> (Inr (saved rs), db')))"

text \<open>
  \<open>Job.findOneAndUpdate(filter, newData, { runValidators: true, new: true })\<close>: the
  library casts the filter, casts the update, runs the validators of the paths the update
  sets, and only then sends the command to the database, which updates the first matching
  document and returns it as updated. The validators see the update alone, never the
  stored document. The \<open>timestamps\<close> option adds \<open>updatedAt\<close> to the update.
\<close>

definition castUpdate :: "env \<Rightarrow> (string \<rightharpoonup> string) \<Rightarrow> js_error + objectId option" where
  "castUpdate e newData =
     (case newData ''createdBy'' of
        None \<Rightarrow> Inr None
      | Some s \<Rightarrow>
          (case castObjectId e s of
             None \<Rightarrow> Inl (CastError s ''createdBy'')
           | Some u \<Rightarrow> Inr (Some u)))"

definition updateValidators :: "env \<Rightarrow> (string \<rightharpoonup> string) \<Rightarrow> sub_error list" where
  "updateValidators e newData =
     reportOrder e
       ((case newData ''role'' of None \<Rightarrow> []
         | Some v \<Rightarrow> doValidate ''role'' JobSchema_role (Some v)) @
        (case newData ''company'' of None \<Rightarrow> []
         | Some v \<Rightarrow> doValidate ''company'' JobSchema_company (Some v)) @
        (case newData ''status'' of None \<Rightarrow> []
         | Some v \<Rightarrow> doValidate ''status'' JobSchema_status (Some v)))"

definition applyUpdate :: "env \<Rightarrow> (string \<rightharpoonup> string) \<Rightarrow> objectId option \<Rightarrow> job \<Rightarrow> job" where
  "applyUpdate e newData owner j =
     j\<lparr>role := (case newData ''role'' of None \<Rightarrow> role j | Some v \<Rightarrow> v),
       company := (case newData ''company'' of None \<Rightarrow> company j | Some v \<Rightarrow> v),
       status := (case newData ''status'' of None \<Rightarrow> status j | Some v \<Rightarrow> v),
       createdBy := (case owner of None \<Rightarrow> createdBy j | Some u \<Rightarrow> u),
       updatedAt := now e\<rparr>"

fun modifyFirst :: "('a \<Rightarrow> bool) \<Rightarrow> ('a \<Rightarrow> 'a) \<Rightarrow> 'a list \<Rightarrow> 'a option \<times> 'a list" where
  "modifyFirst P f [] = (None, [])"
| "modifyFirst P f (x # xs) =
     (if P x then (Some (f x), f x # xs)
      else (case modifyFirst P f xs of (r, ys) \<Rightarrow> (r, x # ys)))"

fun removeFirst :: "('a \<Rightarrow> bool) \<Rightarrow> 'a list \<Rightarrow> 'a option \<times> 'a list" where
  "removeFirst P [] = (None, [])"
| "removeFirst P (x # xs) =
     (if P x then (Some x, xs)
      else (case removeFirst P xs of (r, ys) \<Rightarrow> (r, x # ys)))"

definition Job_findOneAndUpdate ::
  "env \<Rightarrow> job list \<Rightarrow> string \<Rightarrow> string \<Rightarrow> (string \<rightharpoonup> string) \<Rightarrow> (js_error + job option) \<times> job list" where
  "Job_findOneAndUpdate e db jobId userId newData =
     (case castFilter e jobId userId of
        Inl err \<Rightarrow> (Inl err, db)
      | Inr c \<Rightarrow>
          (case castUpdate e newData of
             Inl err \<Rightarrow> (Inl err, db)
           | Inr owner \<Rightarrow>
               (case updateValidators e newData of
                  x # xs \<Rightarrow> (Inl (ValidationError ''Validation failed'' (x # xs)), db)
                | [] \<Rightarrow>
                    (case modifyFirst (matches c) (applyUpdate e newData owner) db of
                       (r, db') \<Rightarrow> (Inr r, db')))))"

text \<open>\<open>Job.findOneAndDelete({ _id: jobId, createdBy: userId })\<close>\<close>

definition Job_findOneAndDelete ::
  "env \<Rightarrow> job list \<Rightarrow> string \<Rightarrow> string \<Rightarrow> (js_error + job option) \<times> job list" where
  "Job_findOneAndDelete e db jobId userId =
     (case castFilter e jobId userId of
        Inl err \<Rightarrow> (Inl err, db)
      | Inr c \<Rightarrow> (case removeFirst (matches c) db of (r, db') \<Rightarrow> (Inr r, db')))"

section \<open>The controllers (controllers/jobs.js)\<close>

text \<open>
  A request on the routes \<open>/\<close> (list) and \<open>/:id\<close>, as the controllers read it:
  \<open>req.body\<close> (for an update the update document, a JSON object with string values),
  \<open>req.params.id\<close> and \<open>req.user.userId\<close>, which the authentication middleware has taken
  from the token. A controller returns the response it sends or the error it throws,
  and the collection as it leaves it.
\<close>

record request =
  req_body :: "string \<rightharpoonup> string"
  params_id :: string
  user_userId :: string

text \<open>
  A create request: \<open>express.json()\<close> parses a JSON object or a JSON array, so the body
  that \<open>createJob\<close> receives is an object with string values or an array of such
  objects.
\<close>

datatype json_body =
  Object "string \<rightharpoonup> string"
| Array "(string \<rightharpoonup> string) list"

record post_request =
  post_body :: json_body
  post_userId :: string

definition no_job_message :: "string \<Rightarrow> string" where
  "no_job_message jobId = ''No job with id '' @ jobId @ '' was found''"

definition getAllJobs :: "env \<Rightarrow> job list \<Rightarrow> request \<Rightarrow> (js_error + response) \<times> job list" where
  "getAllJobs e db req =
     (case Job_find_sorted e db (user_userId req) of
        Inl err \<Rightarrow> (Inl err, db)
      | Inr jobs \<Rightarrow> (Inr \<lparr>res_status = OK, res_body = JobsBody jobs (length jobs)\<rparr>, db))"

definition getJob :: "env \<Rightarrow> job list \<Rightarrow> request \<Rightarrow> (js_error + response) \<times> job list" where
  "getJob e db req =
     (case Job_findOne e db (params_id req) (user_userId req) of
        Inl err \<Rightarrow> (Inl err, db)
      | Inr None \<Rightarrow> (Inl (NotFoundError (no_job_message (params_id req))), db)
      | Inr (Some job) \<Rightarrow> (Inr \<lparr>res_status = OK, res_body = JobBody job\<rparr>, db))"

text \<open>
  \<open>createJob\<close> assigns \<open>req.body.createdBy\<close> and hands \<open>req.body\<close> to \<open>Job.create\<close>. On
  an object the assignment overwrites the entry \<open>createdBy\<close>. On an array it sets a
  named property of the array object and leaves every element as the client sent it.
\<close>

definition createJob :: "env \<Rightarrow> job list \<Rightarrow> post_request \<Rightarrow> (js_error + response) \<times> job list" where
  "createJob e db req =
     (case post_body req of
        Object b \<Rightarrow>
          (case Job_create e db (b(''createdBy'' \<mapsto> post_userId req)) of
             (Inl err, db') \<Rightarrow> (Inl err, db')
           | (Inr job, db') \<Rightarrow> (Inr \<lparr>res_status = OK, res_body = JobBody job\<rparr>, db'))
      | Array docs \<Rightarrow>
          (case Job_create_array e db docs of
             (Inl err, db') \<Rightarrow> (Inl err, db')
           | (Inr jobs, db') \<Rightarrow> (Inr \<lparr>res_status = OK, res_body = JobArrayBody jobs\<rparr>, db')))"

definition updateJob :: "env \<Rightarrow> job list \<Rightarrow> request \<Rightarrow> (js_error + response) \<times> job list" where
  "updateJob e db req =
     (case Job_findOneAndUpdate e db (params_id req) (user_userId req) (req_body req) of
        (Inl err, db') \<Rightarrow> (Inl err, db')
      | (Inr None, db') \<Rightarrow> (Inl (NotFoundError (no_job_message (params_id req))), db')
      | (Inr (Some updatedJob), db') \<Rightarrow>
          (Inr \<lparr>res_status = OK, res_body = UpdatedJobBody updatedJob\<rparr>, db'))"

definition deleteJob :: "env \<Rightarrow> job list \<Rightarrow> request \<Rightarrow> (js_error + response) \<times> job list" where
  "deleteJob e db req =
     (case Job_findOneAndDelete e db (params_id req) (user_userId req) of
        (Inl err, db') \<Rightarrow> (Inl err, db')
      | (Inr None, db') \<Rightarrow> (Inl (NotFoundError (no_job_message (params_id req))), db')
      | (Inr (Some deletedJob), db') \<Rightarrow> (Inr \<lparr>res_status = OK, res_body = EmptyBody\<rparr>, db'))"

text \<open>
  \<open>express-async-errors\<close> hands what a controller throws to the error handler, which is
  registered last in \<open>app.js\<close>; the client receives the controller's response or the
  handler's.
\<close>

definition respond :: "(js_error + response) \<times> job list \<Rightarrow> handler_failure + response" where
  "respond r = (case fst r of Inl err \<Rightarrow> errorHandlerMiddleware err | Inr res \<Rightarrow> Inr res)"

section \<open>The claims in the words of the specification\<close>

text \<open>
  The classification rules of the error normalizer as the specification lists them: the
  default first, then the duplicate-key, the schema-validation and the type-cast rule.
  Each rule is a test on the error and the response the rule alone gives; that response
  needs the payload the rule reads (\<open>keyValue\<close>, \<open>errors\<close>). \<open>last_matching_rule\<close> is the
  response of the last rule of the list whose test holds.
\<close>

definition default_response :: "js_error \<Rightarrow> response option" where
  "default_response err = Some (send (initialCustomError err))"

definition duplicate_response :: "js_error \<Rightarrow> response option" where
  "duplicate_response err =
     map_option (\<lambda>ks. \<lparr>res_status = BAD_REQUEST, res_body = MsgBody (duplicate_msg ks)\<rparr>)
       (err_keyValue err)"

definition validation_response :: "js_error \<Rightarrow> response option" where
  "validation_response err =
     map_option (\<lambda>es. \<lparr>res_status = BAD_REQUEST, res_body = MsgBody (validation_msg es)\<rparr>)
       (err_errors err)"

definition cast_response :: "js_error \<Rightarrow> response option" where
  "cast_response err =
     Some \<lparr>res_status = NOT_FOUND, res_body = MsgBody (cast_msg (err_value err))\<rparr>"

definition classifier_rules :: "((js_error \<Rightarrow> bool) \<times> (js_error \<Rightarrow> response option)) list" where
  "classifier_rules =
     [(\<lambda>err. True, default_response),
      (isDuplicate, duplicate_response),
      (isValidation, validation_response),
      (isCast, cast_response)]"

definition last_matching_rule :: "js_error \<Rightarrow> response option" where
  "last_matching_rule err = snd (last (filter (\<lambda>r. fst r err) classifier_rules)) err"


section \<open>Example data\<close>

text \<open>
  A cast that accepts the 24-digit lower-case hexadecimal strings, a validation that
  reports \<open>company\<close> before \<open>role\<close>, two users, a collection with one job of each, and
  the requests the examples below send.
\<close>

definition hex24 :: "string \<Rightarrow> objectId option" where
  "hex24 s =
     (if length s = 24 \<and> list_all (\<lambda>c. c \<in> set ''0123456789abcdef'') s
      then Some (ObjectId s) else None)"

definition example_rank :: "string \<Rightarrow> nat" where
  "example_rank p =
     (if p = ''company'' then 0 else if p = ''role'' then 1 else if p = ''status'' then 2 else 3)"

definition example_id :: "nat \<Rightarrow> objectId" where
  "example_id k =
     (if k = 0 then ObjectId ''65a000000000000000000003''
      else ObjectId ''65a000000000000000000005'')"

definition env0 :: env where
  "env0 =
     \<lparr>castObjectId = hex24, newObjectId = example_id, now = 30,
      pathRank = example_rank\<rparr>"

definition userA :: string where "userA = ''0000000000000000000000aa''"
definition userB :: string where "userB = ''0000000000000000000000bb''"

definition jobA :: job where
  "jobA =
     \<lparr>job_id = ObjectId ''65a000000000000000000001'', role = ''Engineer'', company = ''Acme'',
      status = ''interview'', createdBy = ObjectId userA, createdAt = 20, updatedAt = 25\<rparr>"

definition jobB :: job where
  "jobB =
     \<lparr>job_id = ObjectId ''65a000000000000000000002'', role = ''Analyst'', company = ''Initech'',
      status = ''pending'', createdBy = ObjectId userB, createdAt = 10, updatedAt = 10\<rparr>"

definition db0 :: "job list" where
  "db0 = [jobA, jobB]"

definition request0 :: "string \<Rightarrow> string \<Rightarrow> (string \<rightharpoonup> string) \<Rightarrow> request" where
  "request0 userId jobId b = \<lparr>req_body = b, params_id = jobId, user_userId = userId\<rparr>"

definition idA :: string where "idA = ''65a000000000000000000001''"

text \<open>
  Two errors that match more than one classifier shape: a duplicate-key error renamed to
  a cast failure, and a duplicate-key error that also carries a status of its own.
\<close>

definition duplicate_and_cast :: js_error where
  "duplicate_and_cast =
     \<lparr>err_statusCode = None, err_message = Some ''E11000 duplicate key error'',
      err_code = Some (CodeNum 11000), err_name = Some ''CastError'',
      err_keyValue = Some [''email''], err_errors = None, err_value = Some ''abc''\<rparr>"

definition duplicate_and_status :: js_error where
  "duplicate_and_status =
     \<lparr>err_statusCode = Some 401, err_message = Some ''E11000 duplicate key error'',
      err_code = Some (CodeNum 11000), err_name = Some ''MongoServerError'',
      err_keyValue = Some [''email''], err_errors = None, err_value = None\<rparr>"

definition status_bogus :: "string \<rightharpoonup> string" where
  "status_bogus = [''status'' \<mapsto> ''bogus'']"

definition status_declined :: "string \<rightharpoonup> string" where
  "status_declined = [''status'' \<mapsto> ''declined'']"

definition role_only :: "string \<rightharpoonup> string" where
  "role_only = [''role'' \<mapsto> ''Lead'']"

definition new_job_for_A :: "string \<rightharpoonup> string" where
  "new_job_for_A = [''role'' \<mapsto> ''Dev'', ''company'' \<mapsto> ''Globex'', ''createdBy'' \<mapsto> userA]"

definition created_job :: job where
  "created_job =
     \<lparr>job_id = ObjectId ''65a000000000000000000003'', role = ''Dev'', company = ''Globex'',
      status = ''pending'', createdBy = ObjectId userB, createdAt = 30, updatedAt = 30\<rparr>"

definition jobA2 :: job where
  "jobA2 =
     \<lparr>job_id = ObjectId ''65a000000000000000000004'', role = ''Tester'', company = ''Hooli'',
      status = ''declined'', createdBy = ObjectId userA, createdAt = 5, updatedAt = 40\<rparr>"

definition db1 :: "job list" where
  "db1 = [jobA, jobB, jobA2]"

definition no_body :: "string \<rightharpoonup> string" where
  "no_body = Map.empty"


definition malformed_id :: string where
  "malformed_id = ''67d4cc1feb66701a1bb454bee''"

definition missing_role_and_company :: js_error where
  "missing_role_and_company =
     ValidationError ''Job validation failed''
       [\<lparr>path = ''company'', message = ''Please enter a company name''\<rparr>,
        \<lparr>path = ''role'', message = ''Please provide a role''\<rparr>]"

definition post0 :: "string \<Rightarrow> json_body \<Rightarrow> post_request" where
  "post0 userId b = \<lparr>post_body = b, post_userId = userId\<rparr>"

definition created_for_A :: job where
  "created_for_A =
     \<lparr>job_id = ObjectId ''65a000000000000000000003'', role = ''Dev'', company = ''Globex'',
      status = ''pending'', createdBy = ObjectId userA, createdAt = 30, updatedAt = 30\<rparr>"

definition bogus_status_and_owner :: "string \<rightharpoonup> string" where
  "bogus_status_and_owner = [''status'' \<mapsto> ''bogus'', ''createdBy'' \<mapsto> ''xyz'']"

section \<open>Properties of the error handler\<close>

lemmas StatusCodes = OK_def BAD_REQUEST_def UNAUTHORIZED_def NOT_FOUND_def
  INTERNAL_SERVER_ERROR_def

lemmas handler_defs = errorHandlerMiddleware_def handleDuplicate_def handleValidation_def
  handleCast_def send_def initialCustomError_def

text \<open>The handler on an error that passes none of the three tests, and on each test.\<close>

lemma handler_unclassified:
  "\<not> isDuplicate err \<Longrightarrow> \<not> isValidation err \<Longrightarrow> \<not> isCast err \<Longrightarrow>
   errorHandlerMiddleware err =
     Inr \<lparr>res_status = or_number (err_statusCode err) INTERNAL_SERVER_ERROR,
          res_body = MsgBody (or_string (err_message err) generic_message)\<rparr>"
  by (simp add: handler_defs)

lemma handler_cast:
  "isCast err \<Longrightarrow> (isDuplicate err \<Longrightarrow> err_keyValue err \<noteq> None) \<Longrightarrow>
   errorHandlerMiddleware err =
     Inr \<lparr>res_status = NOT_FOUND, res_body = MsgBody (cast_msg (err_value err))\<rparr>"
  by (auto simp: handler_defs isCast_def isValidation_def)

lemma handler_validation:
  "isValidation err \<Longrightarrow> err_errors err = Some es \<Longrightarrow>
   (isDuplicate err \<Longrightarrow> err_keyValue err \<noteq> None) \<Longrightarrow>
   errorHandlerMiddleware err =
     Inr \<lparr>res_status = BAD_REQUEST, res_body = MsgBody (validation_msg es)\<rparr>"
  by (auto simp: handler_defs isCast_def isValidation_def)

lemma handler_duplicate:
  "isDuplicate err \<Longrightarrow> err_keyValue err = Some ks \<Longrightarrow> \<not> isValidation err \<Longrightarrow>
   \<not> isCast err \<Longrightarrow>
   errorHandlerMiddleware err =
     Inr \<lparr>res_status = BAD_REQUEST, res_body = MsgBody (duplicate_msg ks)\<rparr>"
  by (simp add: handler_defs)

text \<open>Which tests the errors of the program pass.\<close>

lemma shapes_Error [simp]:
  "\<not> isDuplicate (Error m)" "\<not> isValidation (Error m)" "\<not> isCast (Error m)"
  by (simp_all add: isDuplicate_def isValidation_def isCast_def Error_def)

lemma fields_Error [simp]:
  "err_statusCode (Error m) = None" "err_message (Error m) = Some m"
  by (simp_all add: Error_def)

lemma shapes_CustomAPIError [simp]:
  "\<not> isDuplicate (CustomAPIError d)" "\<not> isValidation (CustomAPIError d)"
  "\<not> isCast (CustomAPIError d)"
  by (simp_all add: isDuplicate_def isValidation_def isCast_def Error_def CustomAPIError_def)

lemma fields_CustomAPIError [simp]:
  "err_statusCode (CustomAPIError d) = Some (domain_status d)"
  "err_message (CustomAPIError d) = Some (domain_message d)"
  by (simp_all add: Error_def CustomAPIError_def)

lemma shapes_CastError [simp]:
  "\<not> isDuplicate (CastError v p)" "\<not> isValidation (CastError v p)" "isCast (CastError v p)"
  "err_value (CastError v p) = Some v"
  by (simp_all add: isDuplicate_def isValidation_def isCast_def CastError_def)

lemma shapes_ValidationError [simp]:
  "\<not> isDuplicate (ValidationError l es)" "isValidation (ValidationError l es)"
  "\<not> isCast (ValidationError l es)" "err_errors (ValidationError l es) = Some es"
  by (simp_all add: isDuplicate_def isValidation_def isCast_def ValidationError_def)

lemma shapes_DuplicateKeyError [simp]:
  "isDuplicate (DuplicateKeyError ks)" "\<not> isValidation (DuplicateKeyError ks)"
  "\<not> isCast (DuplicateKeyError ks)" "err_keyValue (DuplicateKeyError ks) = Some ks"
  by (simp_all add: isDuplicate_def isValidation_def isCast_def DuplicateKeyError_def)

lemma domain_status_nonzero: "domain_status d \<noteq> 0"
  by (cases d) (simp_all add: StatusCodes)

section \<open>The claims about the error handler\<close>

subsection \<open>C4: errors that match no classifier shape\<close>

text \<open>
  Claim C4 says that an error with no duplicate-key indicator, that is neither a
  schema-validation nor a type-cast failure and has no status of its own, is answered
  with status 500 and a fixed generic message. The handler starts from
  \<open>err.message || 'Something went wrong, please try again later'\<close>: the generic text is
  only the fallback for an error without a message. Counterexample to C4: a plain
  \<open>Error\<close> raised by a failed connection matches no shape, and its own message is what
  the client receives.
\<close>

theorem C4_internal_message_reaches_client:
  "\<not> isDuplicate (Error ''connect ECONNREFUSED 127.0.0.1:27017'') \<and>
   \<not> isValidation (Error ''connect ECONNREFUSED 127.0.0.1:27017'') \<and>
   \<not> isCast (Error ''connect ECONNREFUSED 127.0.0.1:27017'') \<and>
   err_statusCode (Error ''connect ECONNREFUSED 127.0.0.1:27017'') = None \<and>
   errorHandlerMiddleware (Error ''connect ECONNREFUSED 127.0.0.1:27017'') =
     Inr \<lparr>res_status = 500, res_body = MsgBody ''connect ECONNREFUSED 127.0.0.1:27017''\<rparr> \<and>
   ''connect ECONNREFUSED 127.0.0.1:27017'' \<noteq> generic_message"
  by (simp add: handler_unclassified or_number_def or_string_def StatusCodes
      generic_message_def)

text \<open>
  C4 as amended: for every error that matches none of the classifier shapes and has no
  status of its own, the handler answers with status 500; the message is the error's own
  message when it has a non-empty one, and the fixed generic message otherwise.
\<close>

theorem C4_unclassified_error_status_500:
  assumes "\<not> isDuplicate err" and "\<not> isValidation err" and "\<not> isCast err"
    and "err_statusCode err = None"
  shows "errorHandlerMiddleware err =
     Inr \<lparr>res_status = 500,
          res_body = MsgBody (case err_message err of
                                None \<Rightarrow> ''Something went wrong, please try again later''
                              | Some m \<Rightarrow>
                                  if m = [] then ''Something went wrong, please try again later''
                                  else m)\<rparr>"
  using assms
  by (simp add: handler_unclassified or_number_def or_string_def StatusCodes
      generic_message_def split: option.splits)

text \<open>
  C4, witness: an \<open>Error\<close> without a message satisfies the four hypotheses and is
  answered with the generic message.
\<close>

theorem C4_unclassified_error_status_500_witness:
  "\<not> isDuplicate (Error []) \<and> \<not> isValidation (Error []) \<and> \<not> isCast (Error []) \<and>
   err_statusCode (Error []) = None \<and>
   errorHandlerMiddleware (Error []) =
     Inr \<lparr>res_status = 500,
          res_body = MsgBody ''Something went wrong, please try again later''\<rparr>"
  using C4_unclassified_error_status_500 [of "Error []"]
  by simp

subsection \<open>C7: duplicate-key errors\<close>

text \<open>
  C7: for every error that carries the duplicate-key indicator (\<open>code\<close> 11000) together
  with its key-conflict payload \<open>keyValue\<close>, the handler answers with status 400 and a
  message that names the fields of the payload, joined by commas. The claim is about
  uniqueness violations as the store raises them; the driver names those
  \<open>MongoServerError\<close>, so the two tests on \<open>name\<close> fail for them. An error that passes
  one of those tests as well is the subject of C10.
\<close>

theorem C7_duplicate_key_status_400:
  assumes "isDuplicate err" and "err_keyValue err = Some ks"
    and "\<not> isValidation err" and "\<not> isCast err"
  shows "errorHandlerMiddleware err =
     Inr \<lparr>res_status = 400,
          res_body = MsgBody (''Duplicate value entered for the '' @ join '','' ks @
                              '' field. Please choose another value'')\<rparr>"
  using assms by (simp add: handler_duplicate duplicate_msg_def StatusCodes)

text \<open>
  C7, witness: the uniqueness violation on \<open>email\<close> that the notes of the handler
  show.
\<close>

theorem C7_duplicate_key_status_400_witness:
  "isDuplicate (DuplicateKeyError [''email'']) \<and>
   err_keyValue (DuplicateKeyError [''email'']) = Some [''email''] \<and>
   \<not> isValidation (DuplicateKeyError [''email'']) \<and>
   \<not> isCast (DuplicateKeyError [''email'']) \<and>
   errorHandlerMiddleware (DuplicateKeyError [''email'']) =
     Inr \<lparr>res_status = 400,
          res_body =
            MsgBody ''Duplicate value entered for the email field. Please choose another value''\<rparr>"
  using C7_duplicate_key_status_400 [of "DuplicateKeyError [''email'']" "[''email'']"]
  by simp

subsection \<open>C8: domain errors\<close>

text \<open>
  Claim C8 says that every explicitly raised domain error is answered with its own status
  and its own message verbatim. The status is always the error's own, and none of the
  three rules fires. The message starts as \<open>err.message || '...'\<close>, so an empty message
  is replaced. Counterexample to C8: a \<open>NotFound\<close> error raised with the empty message
  is answered with the generic text.
\<close>

theorem C8_empty_message_not_verbatim:
  "errorHandlerMiddleware (CustomAPIError (NotFound [])) =
     Inr \<lparr>res_status = 404,
          res_body = MsgBody ''Something went wrong, please try again later''\<rparr> \<and>
   domain_message (NotFound []) \<noteq> ''Something went wrong, please try again later''"
  by (simp add: handler_unclassified or_number_def or_string_def StatusCodes
      generic_message_def)

text \<open>
  C8 as amended: for every explicitly raised domain error (\<open>NotFound\<close>, \<open>BadRequest\<close>,
  \<open>Unauthenticated\<close>) with a non-empty message, the duplicate-key, validation and cast
  rules do not fire and the response carries the error's own status and its own message
  verbatim.
\<close>

theorem C8_domain_error_verbatim:
  assumes "domain_message d \<noteq> []"
  shows "\<not> isDuplicate (CustomAPIError d) \<and> \<not> isValidation (CustomAPIError d) \<and>
     \<not> isCast (CustomAPIError d) \<and>
     errorHandlerMiddleware (CustomAPIError d) =
       Inr \<lparr>res_status = domain_status d, res_body = MsgBody (domain_message d)\<rparr>"
  using assms
  by (simp add: handler_unclassified or_number_def or_string_def domain_status_nonzero)

text \<open>C8, witness: an \<open>Unauthenticated\<close> error with a message.\<close>

theorem C8_domain_error_verbatim_witness:
  "domain_message (Unauthenticated ''Authentication invalid'') \<noteq> [] \<and>
   errorHandlerMiddleware (CustomAPIError (Unauthenticated ''Authentication invalid'')) =
     Inr \<lparr>res_status = 401, res_body = MsgBody ''Authentication invalid''\<rparr>"
  using C8_domain_error_verbatim [of "Unauthenticated ''Authentication invalid''"]
  by (simp add: StatusCodes)

subsection \<open>C10: errors that match more than one shape\<close>

text \<open>
  The handler runs its three \<open>if\<close> statements one after the other on the same
  \<open>customError\<close>, so a later rule overwrites what an earlier one has set. The tests of
  the validation rule and of the cast rule compare the same property \<open>name\<close> with two
  different strings: no error passes both.
\<close>

lemma validation_cast_exclusive: "\<not> (isValidation err \<and> isCast err)"
  by (simp add: isValidation_def isCast_def)

lemma last_matching_rule_cases:
  "last_matching_rule err =
     (if isCast err then cast_response err
      else if isValidation err then validation_response err
      else if isDuplicate err then duplicate_response err
      else default_response err)"
  by (simp add: last_matching_rule_def classifier_rules_def)

text \<open>
  C10: for every error (whose payloads \<open>keyValue\<close> and \<open>errors\<close> are there when the rule
  that reads them fires), the response of the handler is the response of the last rule
  that matches, in the order default, duplicate-key, schema-validation, type-cast: the
  cast rule overrides the validation rule, which overrides the duplicate-key rule, which
  overrides the default, which carries the status and message of a domain error.
\<close>

theorem C10_last_matching_rule_wins:
  assumes "isDuplicate err \<Longrightarrow> err_keyValue err \<noteq> None"
    and "isValidation err \<Longrightarrow> err_errors err \<noteq> None"
  shows "(\<exists>r. last_matching_rule err = Some r \<and> errorHandlerMiddleware err = Inr r) \<and>
     (isCast err \<longrightarrow> last_matching_rule err = cast_response err) \<and>
     (isValidation err \<and> \<not> isCast err \<longrightarrow> last_matching_rule err = validation_response err) \<and>
     (isDuplicate err \<and> \<not> isValidation err \<and> \<not> isCast err \<longrightarrow>
        last_matching_rule err = duplicate_response err) \<and>
     (\<not> isDuplicate err \<and> \<not> isValidation err \<and> \<not> isCast err \<longrightarrow>
        last_matching_rule err = default_response err)"
proof -
  have rules: "last_matching_rule err =
     (if isCast err then cast_response err
      else if isValidation err then validation_response err
      else if isDuplicate err then duplicate_response err
      else default_response err)"
    by (rule last_matching_rule_cases)
  have "\<exists>r. last_matching_rule err = Some r \<and> errorHandlerMiddleware err = Inr r"
  proof (cases "isCast err")
    case True
    with assms(1) show ?thesis
      by (simp add: rules cast_response_def handler_cast)
  next
    case notCast: False
    show ?thesis
    proof (cases "isValidation err")
      case True
      with assms(2) obtain es where "err_errors err = Some es" by auto
      with True notCast assms(1) show ?thesis
        by (simp add: rules validation_response_def handler_validation)
    next
      case notVal: False
      show ?thesis
      proof (cases "isDuplicate err")
        case True
        with assms(1) obtain ks where "err_keyValue err = Some ks" by auto
        with True notCast notVal show ?thesis
          by (simp add: rules duplicate_response_def handler_duplicate)
      next
        case False
        with notCast notVal show ?thesis
          by (simp add: rules default_response_def handler_unclassified send_def
              initialCustomError_def)
      qed
    qed
  qed
  then show ?thesis
    by (simp add: rules)
qed

text \<open>
  C10, witness: an error with the duplicate-key indicator and the name of a cast failure
  is answered by the cast rule (404), not by the duplicate-key rule (400); an error with
  the duplicate-key indicator and a status of its own is answered by the duplicate-key
  rule.
\<close>

theorem C10_last_matching_rule_wins_witness:
  "isDuplicate duplicate_and_cast \<and> isCast duplicate_and_cast \<and>
   err_keyValue duplicate_and_cast \<noteq> None \<and> \<not> isValidation duplicate_and_cast \<and>
   errorHandlerMiddleware duplicate_and_cast =
     Inr \<lparr>res_status = 404, res_body = MsgBody ''No job found with an id of abc''\<rparr> \<and>
   isDuplicate duplicate_and_status \<and> err_statusCode duplicate_and_status = Some 401 \<and>
   err_keyValue duplicate_and_status \<noteq> None \<and> \<not> isValidation duplicate_and_status \<and>
   errorHandlerMiddleware duplicate_and_status =
     Inr \<lparr>res_status = 400,
          res_body =
            MsgBody ''Duplicate value entered for the email field. Please choose another value''\<rparr>"
proof -
  have shapes:
    "isDuplicate duplicate_and_cast" "isCast duplicate_and_cast"
    "\<not> isValidation duplicate_and_cast" "err_keyValue duplicate_and_cast = Some [''email'']"
    "isDuplicate duplicate_and_status" "\<not> isCast duplicate_and_status"
    "\<not> isValidation duplicate_and_status"
    "err_keyValue duplicate_and_status = Some [''email'']"
    "err_statusCode duplicate_and_status = Some 401"
    "err_value duplicate_and_cast = Some ''abc''"
    by (simp_all add: duplicate_and_cast_def duplicate_and_status_def isDuplicate_def
        isCast_def isValidation_def)
  from C10_last_matching_rule_wins [of duplicate_and_cast] shapes
  have "errorHandlerMiddleware duplicate_and_cast =
     Inr \<lparr>res_status = 404, res_body = MsgBody ''No job found with an id of abc''\<rparr>"
    by (auto simp: cast_response_def cast_msg_def template_value_def StatusCodes)
  moreover from C10_last_matching_rule_wins [of duplicate_and_status] shapes
  have "errorHandlerMiddleware duplicate_and_status =
     Inr \<lparr>res_status = 400,
          res_body =
            MsgBody ''Duplicate value entered for the email field. Please choose another value''\<rparr>"
    by (auto simp: duplicate_response_def duplicate_msg_def StatusCodes)
  ultimately show ?thesis
    using shapes by simp
qed

section \<open>Properties of the store and of the controllers\<close>

text \<open>Whatever the rank of the paths, a validation reports the failures it has found.\<close>

lemma reportOrder_simps [simp]:
  "reportOrder e [] = []" "reportOrder e [x] = [x]"
  "set (reportOrder e es) = set es" "mset (reportOrder e es) = mset es"
  by (simp_all add: reportOrder_def)

lemma reportOrder_empty [simp]: "reportOrder e es = [] \<longleftrightarrow> es = []"
  by (metis reportOrder_simps(1,3) set_empty)

text \<open>
  A document that passes the validation has every path the stored job needs: the branch
  of \<open>saveDocument\<close> for a missing path is never taken.
\<close>

lemma doValidate_required_present:
  "sp_required sp = Some m \<Longrightarrow> doValidate p sp v = [] \<Longrightarrow> \<exists>s. v = Some s"
  by (cases v) (simp_all add: doValidate_def requiredError_def)

lemma validateOwner_passed:
  "validateOwner e v = [] \<Longrightarrow> \<exists>u. Option.bind v (castObjectId e) = Some u"
  by (auto simp: validateOwner_def split: option.splits)

lemma newDocument_defined:
  assumes "validateDocument e doc = []"
  shows "\<exists>j. newDocument e k doc = Some j"
proof -
  from assms have parts:
    "doValidate ''role'' JobSchema_role (doc ''role'') = []"
    "doValidate ''company'' JobSchema_company (doc ''company'') = []"
    "validateOwner e (doc ''createdBy'') = []"
    by (simp_all add: validateDocument_def)
  have "sp_required JobSchema_role = Some ''Please provide a role''"
    by (simp add: JobSchema_role_def)
  from doValidate_required_present [OF this parts(1)]
  obtain r where "doc ''role'' = Some r" by blast
  moreover have "sp_required JobSchema_company = Some ''Please enter a company name''"
    by (simp add: JobSchema_company_def)
  from doValidate_required_present [OF this parts(2)]
  obtain c where "doc ''company'' = Some c" by blast
  moreover from parts(3) obtain u where "Option.bind (doc ''createdBy'') (castObjectId e) = Some u"
    using validateOwner_passed by blast
  moreover obtain s where "applyDefault JobSchema_status (doc ''status'') = Some s"
    by (cases "doc ''status''") (simp_all add: applyDefault_def JobSchema_status_def)
  ultimately show ?thesis
    by (simp add: newDocument_def)
qed









lemma castFilter_bad_id:
  "castObjectId e userId = Some u \<Longrightarrow> castObjectId e jobId = None \<Longrightarrow>
   castFilter e jobId userId = Inl (CastError jobId ''_id'')"
  by (simp add: castFilter_def)

lemma castFilter_bad_user:
  "castObjectId e userId = None \<Longrightarrow> castFilter e jobId userId = Inl (CastError userId ''createdBy'')"
  by (simp add: castFilter_def)






text \<open>The example data.\<close>

lemma hex24_examples [simp]:
  "hex24 userA = Some (ObjectId userA)" "hex24 userB = Some (ObjectId userB)"
  "hex24 idA = Some (ObjectId idA)" "hex24 ''xyz'' = None"
  by (simp_all add: hex24_def userA_def userB_def idA_def)

lemma env0_simps [simp]:
  "castObjectId env0 = hex24" "newObjectId env0 = example_id"
  "now env0 = 30" "pathRank env0 = example_rank"
  by (simp_all add: env0_def)

lemma request0_simps [simp]:
  "req_body (request0 u i b) = b" "params_id (request0 u i b) = i"
  "user_userId (request0 u i b) = u"
  by (simp_all add: request0_def)

lemma users_differ [simp]: "userA \<noteq> userB" "userB \<noteq> userA"
  by (simp_all add: userA_def userB_def)


lemma payloads_without_owner [simp]:
  "status_bogus ''createdBy'' = None" "status_declined ''createdBy'' = None"
  "role_only ''createdBy'' = None"
  by (simp_all add: status_bogus_def status_declined_def role_only_def)




text \<open>What the client receives for the three errors of the library and the driver.\<close>

lemma respond_ValidationError:
  "respond (Inl (ValidationError l es), db) =
     Inr \<lparr>res_status = 400, res_body = MsgBody (validation_msg es)\<rparr>"
proof -
  have "errorHandlerMiddleware (ValidationError l es) =
     Inr \<lparr>res_status = BAD_REQUEST, res_body = MsgBody (validation_msg es)\<rparr>"
    by (rule handler_validation) simp_all
  then show ?thesis
    by (simp add: respond_def StatusCodes)
qed

lemma respond_CastError:
  "respond (Inl (CastError v p), db) =
     Inr \<lparr>res_status = 404, res_body = MsgBody (''No job found with an id of '' @ v)\<rparr>"
proof -
  have "errorHandlerMiddleware (CastError v p) =
     Inr \<lparr>res_status = NOT_FOUND, res_body = MsgBody (cast_msg (err_value (CastError v p)))\<rparr>"
    by (rule handler_cast) simp_all
  then show ?thesis
    by (simp add: respond_def StatusCodes cast_msg_def template_value_def)
qed

lemma respond_DuplicateKeyError:
  "respond (Inl (DuplicateKeyError ks), db) =
     Inr \<lparr>res_status = 400, res_body = MsgBody (duplicate_msg ks)\<rparr>"
proof -
  have "errorHandlerMiddleware (DuplicateKeyError ks) =
     Inr \<lparr>res_status = BAD_REQUEST, res_body = MsgBody (duplicate_msg ks)\<rparr>"
    by (rule handler_duplicate) simp_all
  then show ?thesis
    by (simp add: respond_def StatusCodes)
qed

section \<open>The claims about the controllers\<close>

subsection \<open>C1: a job of another user\<close>




subsection \<open>C2: the owner of a new job\<close>

text \<open>
  On an object body \<open>createJob\<close> overwrites \<open>createdBy\<close> with the caller's id before it
  hands the body to \<open>Job.create\<close>: whatever owner value \<open>v\<close> the client puts into the
  object (or none), the outcome is the one of the request without it; the job that a
  successful create stores and returns has the caller's identity as \<open>createdBy\<close>, and a
  failed create stores nothing.
\<close>

lemma createJob_ignores_client_owner:
  "post_body req = Object b \<Longrightarrow>
   createJob e db (req\<lparr>post_body := Object (b(''createdBy'' := v))\<rparr>) = createJob e db req"
  by (simp add: createJob_def)

lemma saveDocument_result:
  assumes "saveDocument e k db doc = (Inr j, db')"
  shows "db' = db @ [j] \<and> Option.bind (doc ''createdBy'') (castObjectId e) = Some (createdBy j)"
  using assms
  by (auto simp: saveDocument_def newDocument_def split: list.splits option.splits if_splits)

lemma saveDocument_failure:
  "saveDocument e k db doc = (Inl err, db') \<Longrightarrow> db' = db"
  by (auto simp: saveDocument_def split: list.splits option.splits if_splits)

lemma createJob_object_owner:
  assumes "post_body req = Object b"
  shows "(createJob e db req = (Inr res, db') \<longrightarrow>
      (\<exists>j. res = \<lparr>res_status = 200, res_body = JobBody j\<rparr> \<and> db' = db @ [j] \<and>
           castObjectId e (post_userId req) = Some (createdBy j))) \<and>
   (createJob e db req = (Inl err, db') \<longrightarrow> db' = db)"
proof (intro conjI impI)
  assume ok: "createJob e db req = (Inr res, db')"
  let ?doc = "b(''createdBy'' \<mapsto> post_userId req)"
  from ok assms obtain j where created: "saveDocument e 0 db ?doc = (Inr j, db')"
    and res: "res = \<lparr>res_status = 200, res_body = JobBody j\<rparr>"
    by (auto simp: createJob_def Job_create_def StatusCodes split: prod.splits sum.splits)
  from saveDocument_result [OF created]
  have "db' = db @ [j]" and "castObjectId e (post_userId req) = Some (createdBy j)"
    by simp_all
  with res show "\<exists>j. res = \<lparr>res_status = 200, res_body = JobBody j\<rparr> \<and> db' = db @ [j] \<and>
           castObjectId e (post_userId req) = Some (createdBy j)"
    by blast
next
  assume "createJob e db req = (Inl err, db')"
  with assms show "db' = db"
    by (auto simp: createJob_def Job_create_def split: prod.splits sum.splits
        dest: saveDocument_failure)
qed

lemmas create_defs = validateDocument_def doValidate_def requiredError_def maxLengthError_def
  enumError_def applyDefault_def JobSchema_role_def JobSchema_company_def JobSchema_status_def
  validateOwner_def newDocument_def

lemma createJob_example:
  "createJob env0 db0 (post0 userB (Object new_job_for_A)) =
     (Inr \<lparr>res_status = 200, res_body = JobBody created_job\<rparr>, db0 @ [created_job])"
  by (simp add: createJob_def Job_create_def saveDocument_def create_defs post0_def
      example_id_def new_job_for_A_def db0_def jobA_def jobB_def created_job_def StatusCodes)

text \<open>
  C2 says that for every create request the owner stored on the new job is the caller,
  whatever owner the payload names. The assignment \<open>req.body.createdBy = req.user.userId\<close>
  is there to do that, and does it for an object. When the body is a JSON array the
  assignment sets a property of the array that \<open>Job.create\<close> does not read, and every
  element is stored with the owner the client wrote into it. C2 at such a request: user B
  posts the array with the one element \<open>{ role: 'Dev', company: 'Globex', createdBy: A }\<close>;
  the create succeeds, and the job that is stored and returned is owned by user A.
\<close>

theorem C2_array_body_keeps_client_owner:
  "post_body (post0 userB (Array [new_job_for_A])) = Array [new_job_for_A] \<and>
   post_userId (post0 userB (Array [new_job_for_A])) = userB \<and>
   new_job_for_A ''createdBy'' = Some userA \<and>
   castObjectId env0 userB = Some (ObjectId userB) \<and>
   createJob env0 db0 (post0 userB (Array [new_job_for_A])) =
     (Inr \<lparr>res_status = 200, res_body = JobArrayBody [created_for_A]\<rparr>,
      db0 @ [created_for_A]) \<and>
   createdBy created_for_A = ObjectId userA \<and> ObjectId userA \<noteq> ObjectId userB"
  by (simp add: createJob_def Job_create_array_def saveDocument_def firstFailure_def create_defs
      post0_def example_id_def new_job_for_A_def db0_def jobA_def jobB_def created_for_A_def
      StatusCodes)

subsection \<open>C3: the list of the caller's jobs\<close>

text \<open>
  C3: for every authenticated caller (the id of the token is an \<open>ObjectId\<close>), the list
  operation succeeds with status 200; the jobs it returns are exactly the stored jobs
  whose owner is the caller (as a multiset: each one once), in ascending order of
  \<open>createdAt\<close>, together with their number; when the caller owns no job the list is
  empty and the count is zero. The collection is left as it was.
\<close>

theorem C3_list_returns_own_jobs_sorted:
  assumes "castObjectId e (user_userId req) = Some u"
  shows "\<exists>jobs. getAllJobs e db req =
             (Inr \<lparr>res_status = 200, res_body = JobsBody jobs (length jobs)\<rparr>, db) \<and>
           mset jobs = filter_mset (\<lambda>j. createdBy j = u) (mset db) \<and>
           sorted (map createdAt jobs) \<and>
           ((\<forall>j\<in>set db. createdBy j \<noteq> u) \<longrightarrow> jobs = [])"
proof -
  let ?jobs = "sort_key createdAt (filter (\<lambda>j. createdBy j = u) db)"
  have "getAllJobs e db req =
      (Inr \<lparr>res_status = 200, res_body = JobsBody ?jobs (length ?jobs)\<rparr>, db)"
    using assms by (simp add: getAllJobs_def Job_find_sorted_def StatusCodes)
  moreover have "mset ?jobs = filter_mset (\<lambda>j. createdBy j = u) (mset db)"
    by simp
  moreover have "sorted (map createdAt ?jobs)"
    by (rule sorted_sort_key)
  moreover have "?jobs = []" if "\<forall>j\<in>set db. createdBy j \<noteq> u"
  proof -
    from that have "filter (\<lambda>j. createdBy j = u) db = []"
      by (simp add: filter_empty_conv)
    then show ?thesis by simp
  qed
  ultimately show ?thesis
    by blast
qed

lemma getAllJobs_example:
  "getAllJobs env0 db1 (request0 userA [] no_body) =
     (Inr \<lparr>res_status = 200, res_body = JobsBody [jobA2, jobA] 2\<rparr>, db1)"
  by (simp add: getAllJobs_def Job_find_sorted_def db1_def jobA_def jobB_def jobA2_def
      StatusCodes)

text \<open>
  C3, witness: user A owns two of the three jobs of the example collection, stored in
  the opposite order of their creation; on the empty collection the list is empty.
\<close>

theorem C3_list_returns_own_jobs_sorted_witness:
  "castObjectId env0 (user_userId (request0 userA [] no_body)) = Some (ObjectId userA) \<and>
   getAllJobs env0 db1 (request0 userA [] no_body) =
     (Inr \<lparr>res_status = 200, res_body = JobsBody [jobA2, jobA] 2\<rparr>, db1) \<and>
   mset [jobA2, jobA] = filter_mset (\<lambda>j. createdBy j = ObjectId userA) (mset db1) \<and>
   sorted (map createdAt [jobA2, jobA]) \<and>
   getAllJobs env0 [] (request0 userA [] no_body) =
     (Inr \<lparr>res_status = 200, res_body = JobsBody [] 0\<rparr>, [])"
proof -
  have cast: "castObjectId env0 (user_userId (request0 userA [] no_body)) = Some (ObjectId userA)"
    by simp
  from C3_list_returns_own_jobs_sorted [OF cast, of db1] getAllJobs_example
  have "mset [jobA2, jobA] = filter_mset (\<lambda>j. createdBy j = ObjectId userA) (mset db1)"
    and "sorted (map createdAt [jobA2, jobA])"
    by auto
  moreover from C3_list_returns_own_jobs_sorted [OF cast, of "[]"]
  have "getAllJobs env0 [] (request0 userA [] no_body) =
     (Inr \<lparr>res_status = 200, res_body = JobsBody [] 0\<rparr>, [])"
    by auto
  ultimately show ?thesis
    using cast getAllJobs_example by simp
qed

subsection \<open>C5: schema-validation failures\<close>

text \<open>
  Every message of a list occurs in the list joined by a separator, so every field-level
  message occurs in the message the handler builds.
\<close>

lemma sublist_join: "m \<in> set ms \<Longrightarrow> sublist m (join sep ms)"
proof (induction sep ms rule: join.induct)
  case (1 sep)
  then show ?case by simp
next
  case (2 sep x)
  then show ?case by simp
next
  case (3 sep x y ys)
  show ?case
  proof (cases "m = x")
    case True
    then show ?thesis
      using sublist_appendI [of x "[]" "sep @ join sep (y # ys)"] by simp
  next
    case False
    with 3 have "sublist m (join sep (y # ys))" by simp
    then have "sublist m ((x @ sep) @ join sep (y # ys))"
      by (simp only: sublist_append) blast
    then show ?thesis by simp
  qed
qed

lemma sublist_validation_msg:
  "s \<in> set es \<Longrightarrow> sublist (message s) (validation_msg es)"
proof -
  assume "s \<in> set es"
  then have "sublist (message s) (join '', '' (map message es))"
    by (intro sublist_join) simp
  then show ?thesis
    unfolding validation_msg_def by (simp only: sublist_append) blast
qed

lemma doValidate_absent_required:
  "sp_required sp = Some m \<Longrightarrow> doValidate p sp None = [\<lparr>path = p, message = m\<rparr>]"
  by (simp add: doValidate_def requiredError_def)

lemma validateDocument_missing:
  assumes "doc ''role'' = None" and "doc ''company'' = None"
  shows "\<lparr>path = ''role'', message = ''Please provide a role''\<rparr> \<in> set (validateDocument e doc)"
    and "\<lparr>path = ''company'', message = ''Please enter a company name''\<rparr>
           \<in> set (validateDocument e doc)"
  using assms
  by (simp_all add: validateDocument_def doValidate_absent_required JobSchema_role_def
      JobSchema_company_def)

lemma saveDocument_missing:
  assumes "doc ''role'' = None" and "doc ''company'' = None"
  shows "saveDocument e k db doc =
      (Inl (ValidationError ''Job validation failed'' (validateDocument e doc)), db)"
proof -
  from validateDocument_missing(1) [OF assms, of e] have "validateDocument e doc \<noteq> []"
    by (metis empty_iff empty_set)
  then obtain x xs where "validateDocument e doc = x # xs"
    by (cases "validateDocument e doc") simp_all
  then show ?thesis
    by (simp add: saveDocument_def)
qed

lemma createJob_missing:
  assumes "post_body req = Object b" and "b ''role'' = None" and "b ''company'' = None"
  shows "\<exists>es. createJob e db req = (Inl (ValidationError ''Job validation failed'' es), db) \<and>
     \<lparr>path = ''role'', message = ''Please provide a role''\<rparr> \<in> set es \<and>
     \<lparr>path = ''company'', message = ''Please enter a company name''\<rparr> \<in> set es"
proof -
  let ?doc = "b(''createdBy'' \<mapsto> post_userId req)"
  from assms(2,3) have absent: "?doc ''role'' = None" "?doc ''company'' = None"
    by simp_all
  note found = validateDocument_missing [where doc = ?doc and e = e, OF absent]
  have run: "createJob e db req =
      (Inl (ValidationError ''Job validation failed'' (validateDocument e ?doc)), db)"
    using saveDocument_missing [where doc = ?doc and e = e and k = 0 and db = db, OF absent]
    by (simp add: createJob_def Job_create_def assms(1))
  show ?thesis
    by (intro exI [of _ "validateDocument e ?doc"] conjI run found)
qed

text \<open>An array whose elements all lack \<open>role\<close> and \<open>company\<close>: no element is stored.\<close>

lemma saveAll_missing:
  assumes "\<forall>d\<in>set docs. d ''role'' = None \<and> d ''company'' = None"
  shows "saveAll e k db docs =
      (map (\<lambda>d. Inl (ValidationError ''Job validation failed'' (validateDocument e d))) docs, db)"
  using assms
proof (induction docs arbitrary: k)
  case Nil
  then show ?case by simp
next
  case (Cons d docs)
  then have "saveDocument e k db d =
      (Inl (ValidationError ''Job validation failed'' (validateDocument e d)), db)"
    by (intro saveDocument_missing) simp_all
  with Cons show ?case by simp
qed

lemma failures_map_Inl: "failures (map (\<lambda>d. Inl (f d)) docs) = map f docs"
  by (induction docs) simp_all

lemma createJob_array_missing:
  assumes "post_body req = Array (d # docs)"
    and "\<forall>x\<in>set (d # docs). x ''role'' = None \<and> x ''company'' = None"
  shows "\<exists>es. createJob e db req = (Inl (ValidationError ''Job validation failed'' es), db) \<and>
     \<lparr>path = ''role'', message = ''Please provide a role''\<rparr> \<in> set es \<and>
     \<lparr>path = ''company'', message = ''Please enter a company name''\<rparr> \<in> set es"
proof -
  let ?f = "\<lambda>x. ValidationError ''Job validation failed'' (validateDocument e x)"
  from assms(2) have absent: "d ''role'' = None" "d ''company'' = None"
    by simp_all
  note found = validateDocument_missing [OF absent, of e]
  have "failures (map (\<lambda>x. Inl (?f x)) (d # docs)) = ?f d # map ?f docs"
    by (simp add: failures_map_Inl)
  then have "firstFailure (map (\<lambda>x. Inl (?f x)) (d # docs)) = Some (?f d)"
    by (simp add: firstFailure_def del: list.map)
  then have run: "createJob e db req = (Inl (?f d), db)"
    using saveAll_missing [OF assms(2), of e 0 db]
    by (simp add: createJob_def Job_create_array_def assms(1) del: list.map)
  show ?thesis
    by (intro exI [of _ "validateDocument e d"] conjI run found)
qed

theorem C5_validation_failure_status_400:
  "(isValidation err \<and> err_errors err = Some es \<and>
      (isDuplicate err \<longrightarrow> err_keyValue err \<noteq> None) \<longrightarrow>
      errorHandlerMiddleware err =
        Inr \<lparr>res_status = 400,
             res_body = MsgBody (''Validation failed for user creation due to the following reasons: '' @
                                 join '', '' (map message es))\<rparr>) \<and>
   ((post_body req = Object b \<and> b ''role'' = None \<and> b ''company'' = None) \<or>
    (post_body req = Array docs \<and> docs \<noteq> [] \<and>
       (\<forall>d\<in>set docs. d ''role'' = None \<and> d ''company'' = None)) \<longrightarrow>
      snd (createJob e db req) = db \<and>
      (\<exists>m. respond (createJob e db req) = Inr \<lparr>res_status = 400, res_body = MsgBody m\<rparr> \<and>
           sublist ''Please provide a role'' m \<and> sublist ''Please enter a company name'' m))"
proof (intro conjI impI)
  assume "isValidation err \<and> err_errors err = Some es \<and>
      (isDuplicate err \<longrightarrow> err_keyValue err \<noteq> None)"
  then have "errorHandlerMiddleware err =
     Inr \<lparr>res_status = BAD_REQUEST, res_body = MsgBody (validation_msg es)\<rparr>"
    by (intro handler_validation) simp_all
  then show "errorHandlerMiddleware err =
        Inr \<lparr>res_status = 400,
             res_body = MsgBody (''Validation failed for user creation due to the following reasons: '' @
                                 join '', '' (map message es))\<rparr>"
    by (simp add: validation_msg_def StatusCodes)
next
  assume missing: "(post_body req = Object b \<and> b ''role'' = None \<and> b ''company'' = None) \<or>
    (post_body req = Array docs \<and> docs \<noteq> [] \<and>
       (\<forall>d\<in>set docs. d ''role'' = None \<and> d ''company'' = None))"
  have "\<exists>es. createJob e db req = (Inl (ValidationError ''Job validation failed'' es), db) \<and>
     \<lparr>path = ''role'', message = ''Please provide a role''\<rparr> \<in> set es \<and>
     \<lparr>path = ''company'', message = ''Please enter a company name''\<rparr> \<in> set es"
    using missing
  proof
    assume "post_body req = Object b \<and> b ''role'' = None \<and> b ''company'' = None"
    then show ?thesis
      using createJob_missing by blast
  next
    assume array: "post_body req = Array docs \<and> docs \<noteq> [] \<and>
       (\<forall>d\<in>set docs. d ''role'' = None \<and> d ''company'' = None)"
    then obtain d ds where "docs = d # ds"
      by (cases docs) simp_all
    with array show ?thesis
      using createJob_array_missing [of req d ds e db] by blast
  qed
  then obtain es where run:
    "createJob e db req = (Inl (ValidationError ''Job validation failed'' es), db)"
    and role: "\<lparr>path = ''role'', message = ''Please provide a role''\<rparr> \<in> set es"
    and company: "\<lparr>path = ''company'', message = ''Please enter a company name''\<rparr> \<in> set es"
    by blast
  show "snd (createJob e db req) = db"
    by (simp add: run)
  have "respond (createJob e db req) =
      Inr \<lparr>res_status = 400, res_body = MsgBody (validation_msg es)\<rparr>"
    by (simp only: run respond_ValidationError)
  moreover have "sublist ''Please provide a role'' (validation_msg es)"
    using sublist_validation_msg [OF role] by simp
  moreover have "sublist ''Please enter a company name'' (validation_msg es)"
    using sublist_validation_msg [OF company] by simp
  ultimately show "\<exists>m. respond (createJob e db req) =
        Inr \<lparr>res_status = 400, res_body = MsgBody m\<rparr> \<and>
      sublist ''Please provide a role'' m \<and> sublist ''Please enter a company name'' m"
    by blast
qed

lemma createJob_no_body_example:
  "respond (createJob env0 db0 (post0 userB (Object no_body))) =
     Inr \<lparr>res_status = 400,
          res_body = MsgBody ''Validation failed for user creation due to the following reasons: Please enter a company name, Please provide a role''\<rparr>"
  by (simp add: createJob_def Job_create_def saveDocument_def create_defs no_body_def post0_def
      reportOrder_def example_rank_def respond_ValidationError validation_msg_def)

text \<open>
  C5, witness: the validation failure for a missing role and company, the create
  request with an empty object that raises it, and the create request with an array of
  one empty object.
\<close>

theorem C5_validation_failure_status_400_witness:
  "isValidation missing_role_and_company \<and>
   err_errors missing_role_and_company =
     Some [\<lparr>path = ''company'', message = ''Please enter a company name''\<rparr>,
           \<lparr>path = ''role'', message = ''Please provide a role''\<rparr>] \<and>
   \<not> isDuplicate missing_role_and_company \<and>
   errorHandlerMiddleware missing_role_and_company =
     Inr \<lparr>res_status = 400,
          res_body = MsgBody ''Validation failed for user creation due to the following reasons: Please enter a company name, Please provide a role''\<rparr> \<and>
   post_body (post0 userB (Object no_body)) = Object no_body \<and>
   no_body ''role'' = None \<and> no_body ''company'' = None \<and>
   snd (createJob env0 db0 (post0 userB (Object no_body))) = db0 \<and>
   respond (createJob env0 db0 (post0 userB (Object no_body))) =
     Inr \<lparr>res_status = 400,
          res_body = MsgBody ''Validation failed for user creation due to the following reasons: Please enter a company name, Please provide a role''\<rparr> \<and>
   post_body (post0 userB (Array [no_body])) = Array [no_body] \<and>
   snd (createJob env0 db0 (post0 userB (Array [no_body]))) = db0"
proof -
  have shape: "isValidation missing_role_and_company"
    "err_errors missing_role_and_company =
     Some [\<lparr>path = ''company'', message = ''Please enter a company name''\<rparr>,
           \<lparr>path = ''role'', message = ''Please provide a role''\<rparr>]"
    "\<not> isDuplicate missing_role_and_company"
    by (simp_all add: missing_role_and_company_def)
  have absent: "no_body ''role'' = None" "no_body ''company'' = None"
    by (simp_all add: no_body_def)
  have bodies: "post_body (post0 userB (Object no_body)) = Object no_body"
    "post_body (post0 userB (Array [no_body])) = Array [no_body]"
    by (simp_all add: post0_def)
  note inst = C5_validation_failure_status_400
    [of missing_role_and_company
      "[\<lparr>path = ''company'', message = ''Please enter a company name''\<rparr>,
        \<lparr>path = ''role'', message = ''Please provide a role''\<rparr>]"
      "post0 userB (Object no_body)" no_body "[]" env0 db0]
  note inst_array = C5_validation_failure_status_400
    [of missing_role_and_company "[]" "post0 userB (Array [no_body])" no_body "[no_body]"
      env0 db0]
  from inst shape have "errorHandlerMiddleware missing_role_and_company =
     Inr \<lparr>res_status = 400,
          res_body = MsgBody ''Validation failed for user creation due to the following reasons: Please enter a company name, Please provide a role''\<rparr>"
    by simp
  moreover from inst absent bodies
  have "snd (createJob env0 db0 (post0 userB (Object no_body))) = db0"
    by blast
  moreover from inst_array absent bodies
  have "snd (createJob env0 db0 (post0 userB (Array [no_body]))) = db0"
    by simp
  ultimately show ?thesis
    using shape absent bodies createJob_no_body_example by blast
qed

subsection \<open>C6: type-cast failures\<close>

text \<open>
  The three controllers that take an id throw the library's \<open>CastError\<close> when a value of
  the filter is no \<open>ObjectId\<close>, before anything is read or written: for the id of the
  caller when that one cannot be cast, and otherwise for the \<open>:id\<close> of the request.
\<close>

lemma bad_id_controllers:
  assumes "castObjectId e (user_userId req) = Some u" and "castObjectId e (params_id req) = None"
  shows "getJob e db req = (Inl (CastError (params_id req) ''_id''), db)"
    and "updateJob e db req = (Inl (CastError (params_id req) ''_id''), db)"
    and "deleteJob e db req = (Inl (CastError (params_id req) ''_id''), db)"
  using assms
  by (simp_all add: getJob_def updateJob_def deleteJob_def Job_findOne_def
      Job_findOneAndUpdate_def Job_findOneAndDelete_def castFilter_bad_id)

lemma bad_user_controllers:
  assumes "castObjectId e (user_userId req) = None"
  shows "getJob e db req = (Inl (CastError (user_userId req) ''createdBy''), db)"
    and "updateJob e db req = (Inl (CastError (user_userId req) ''createdBy''), db)"
    and "deleteJob e db req = (Inl (CastError (user_userId req) ''createdBy''), db)"
  using assms
  by (simp_all add: getJob_def updateJob_def deleteJob_def Job_findOne_def
      Job_findOneAndUpdate_def Job_findOneAndDelete_def castFilter_bad_user)

text \<open>
  C6: for every type-cast failure (the name is \<open>CastError\<close>) the handler answers with
  status 404, not 500, and the message names the value that could not be cast. A cast
  failure of the library carries no \<open>code\<close>; should an error carry the duplicate-key
  indicator too, the duplicate-key rule runs first and needs its payload. In particular
  get-one, update and delete by an authenticated caller (the id of the token is an
  \<open>ObjectId\<close>) with an \<open>:id\<close> that is no identifier are answered with 404 and a message
  naming that id, and leave the collection as it was. Were the caller's id itself no
  \<open>ObjectId\<close>, the answer would be the 404 naming the caller's id, whatever the \<open>:id\<close>.
\<close>

theorem C6_cast_failure_status_404:
  "(isCast err \<and> (isDuplicate err \<longrightarrow> err_keyValue err \<noteq> None) \<longrightarrow>
      errorHandlerMiddleware err =
        Inr \<lparr>res_status = 404,
             res_body = MsgBody (''No job found with an id of '' @
                                 (case err_value err of None \<Rightarrow> ''undefined'' | Some v \<Rightarrow> v))\<rparr>) \<and>
   (castObjectId e (user_userId req) = Some u \<and> castObjectId e (params_id req) = None \<longrightarrow>
      respond (getJob e db req) =
        Inr \<lparr>res_status = 404,
             res_body = MsgBody (''No job found with an id of '' @ params_id req)\<rparr> \<and>
      respond (updateJob e db req) =
        Inr \<lparr>res_status = 404,
             res_body = MsgBody (''No job found with an id of '' @ params_id req)\<rparr> \<and>
      respond (deleteJob e db req) =
        Inr \<lparr>res_status = 404,
             res_body = MsgBody (''No job found with an id of '' @ params_id req)\<rparr> \<and>
      snd (updateJob e db req) = db \<and> snd (deleteJob e db req) = db) \<and>
   (castObjectId e (user_userId req) = None \<longrightarrow>
      respond (getJob e db req) =
        Inr \<lparr>res_status = 404,
             res_body = MsgBody (''No job found with an id of '' @ user_userId req)\<rparr> \<and>
      respond (updateJob e db req) =
        Inr \<lparr>res_status = 404,
             res_body = MsgBody (''No job found with an id of '' @ user_userId req)\<rparr> \<and>
      respond (deleteJob e db req) =
        Inr \<lparr>res_status = 404,
             res_body = MsgBody (''No job found with an id of '' @ user_userId req)\<rparr> \<and>
      snd (updateJob e db req) = db \<and> snd (deleteJob e db req) = db)"
proof -
  have handler: "errorHandlerMiddleware err =
        Inr \<lparr>res_status = 404,
             res_body = MsgBody (''No job found with an id of '' @
                                 (case err_value err of None \<Rightarrow> ''undefined'' | Some v \<Rightarrow> v))\<rparr>"
    if "isCast err \<and> (isDuplicate err \<longrightarrow> err_keyValue err \<noteq> None)"
  proof -
    from that have "errorHandlerMiddleware err =
       Inr \<lparr>res_status = NOT_FOUND, res_body = MsgBody (cast_msg (err_value err))\<rparr>"
      by (intro handler_cast) simp_all
    then show ?thesis
      by (simp add: cast_msg_def template_value_def StatusCodes)
  qed
  have bad_id: "respond (getJob e db req) =
        Inr \<lparr>res_status = 404,
             res_body = MsgBody (''No job found with an id of '' @ params_id req)\<rparr> \<and>
      respond (updateJob e db req) =
        Inr \<lparr>res_status = 404,
             res_body = MsgBody (''No job found with an id of '' @ params_id req)\<rparr> \<and>
      respond (deleteJob e db req) =
        Inr \<lparr>res_status = 404,
             res_body = MsgBody (''No job found with an id of '' @ params_id req)\<rparr> \<and>
      snd (updateJob e db req) = db \<and> snd (deleteJob e db req) = db"
    if "castObjectId e (user_userId req) = Some u \<and> castObjectId e (params_id req) = None"
  proof -
    from that have casts: "castObjectId e (user_userId req) = Some u"
      "castObjectId e (params_id req) = None"
      by simp_all
    note thrown = bad_id_controllers [OF casts, of db]
    show ?thesis
      by (simp only: thrown respond_CastError snd_conv simp_thms)
  qed
  have bad_user: "respond (getJob e db req) =
        Inr \<lparr>res_status = 404,
             res_body = MsgBody (''No job found with an id of '' @ user_userId req)\<rparr> \<and>
      respond (updateJob e db req) =
        Inr \<lparr>res_status = 404,
             res_body = MsgBody (''No job found with an id of '' @ user_userId req)\<rparr> \<and>
      respond (deleteJob e db req) =
        Inr \<lparr>res_status = 404,
             res_body = MsgBody (''No job found with an id of '' @ user_userId req)\<rparr> \<and>
      snd (updateJob e db req) = db \<and> snd (deleteJob e db req) = db"
    if "castObjectId e (user_userId req) = None"
  proof -
    note thrown = bad_user_controllers [OF that, of db]
    show ?thesis
      by (simp only: thrown respond_CastError snd_conv simp_thms)
  qed
  from handler bad_id bad_user show ?thesis
    by blast
qed

lemma malformed_id_rejected: "hex24 malformed_id = None"
  by (simp add: hex24_def malformed_id_def)

text \<open>
  C6, witness: the malformed id of the notes of the handler (25 hexadecimal digits), as
  an error and as the \<open>:id\<close> of a get-one and a delete request of user A; and the same
  requests with the caller's id \<open>nope\<close>.
\<close>

theorem C6_cast_failure_status_404_witness:
  "isCast (CastError malformed_id ''_id'') \<and> \<not> isDuplicate (CastError malformed_id ''_id'') \<and>
   errorHandlerMiddleware (CastError malformed_id ''_id'') =
     Inr \<lparr>res_status = 404,
          res_body = MsgBody ''No job found with an id of 67d4cc1feb66701a1bb454bee''\<rparr> \<and>
   castObjectId env0 (user_userId (request0 userA malformed_id no_body)) = Some (ObjectId userA) \<and>
   castObjectId env0 (params_id (request0 userA malformed_id no_body)) = None \<and>
   respond (getJob env0 db0 (request0 userA malformed_id no_body)) =
     Inr \<lparr>res_status = 404,
          res_body = MsgBody ''No job found with an id of 67d4cc1feb66701a1bb454bee''\<rparr> \<and>
   respond (deleteJob env0 db0 (request0 userA malformed_id no_body)) =
     Inr \<lparr>res_status = 404,
          res_body = MsgBody ''No job found with an id of 67d4cc1feb66701a1bb454bee''\<rparr> \<and>
   snd (deleteJob env0 db0 (request0 userA malformed_id no_body)) = db0 \<and>
   castObjectId env0 (user_userId (request0 ''nope'' malformed_id no_body)) = None \<and>
   respond (getJob env0 db0 (request0 ''nope'' malformed_id no_body)) =
     Inr \<lparr>res_status = 404, res_body = MsgBody ''No job found with an id of nope''\<rparr>"
proof -
  have shape: "isCast (CastError malformed_id ''_id'')"
    "\<not> isDuplicate (CastError malformed_id ''_id'')"
    "err_value (CastError malformed_id ''_id'') = Some malformed_id"
    by simp_all
  have casts: "castObjectId env0 (user_userId (request0 userA malformed_id no_body)) =
      Some (ObjectId userA)"
    "castObjectId env0 (params_id (request0 userA malformed_id no_body)) = None"
    "castObjectId env0 (user_userId (request0 ''nope'' malformed_id no_body)) = None"
    by (simp_all add: malformed_id_rejected) (simp add: hex24_def)
  have shown: "''No job found with an id of '' @ malformed_id =
      ''No job found with an id of 67d4cc1feb66701a1bb454bee''"
    by (simp add: malformed_id_def)
  note inst = C6_cast_failure_status_404
    [of "CastError malformed_id ''_id''" env0 "request0 userA malformed_id no_body"
      "ObjectId userA" db0]
  note inst_user = C6_cast_failure_status_404
    [of "CastError malformed_id ''_id''" env0 "request0 ''nope'' malformed_id no_body"
      "ObjectId userA" db0]
  from inst shape shown have "errorHandlerMiddleware (CastError malformed_id ''_id'') =
     Inr \<lparr>res_status = 404,
          res_body = MsgBody ''No job found with an id of 67d4cc1feb66701a1bb454bee''\<rparr>"
    by simp
  moreover from inst casts(1,2) shown have
    "respond (getJob env0 db0 (request0 userA malformed_id no_body)) =
     Inr \<lparr>res_status = 404,
          res_body = MsgBody ''No job found with an id of 67d4cc1feb66701a1bb454bee''\<rparr>"
    "respond (deleteJob env0 db0 (request0 userA malformed_id no_body)) =
     Inr \<lparr>res_status = 404,
          res_body = MsgBody ''No job found with an id of 67d4cc1feb66701a1bb454bee''\<rparr>"
    "snd (deleteJob env0 db0 (request0 userA malformed_id no_body)) = db0"
    by simp_all
  moreover from inst_user casts(3) have
    "respond (getJob env0 db0 (request0 ''nope'' malformed_id no_body)) =
     Inr \<lparr>res_status = 404, res_body = MsgBody ''No job found with an id of nope''\<rparr>"
    by simp
  ultimately show ?thesis
    using shape casts by blast
qed

subsection \<open>C9: updates and the status of a job\<close>











lemma bogus_status_and_owner_simps [simp]:
  "bogus_status_and_owner ''status'' = Some ''bogus''"
  "bogus_status_and_owner ''createdBy'' = Some ''xyz''"
  by (simp_all add: bogus_status_and_owner_def)








end
